theory Spec2Isabelle
  imports Complex_Main
begin

section \<open>Mass balance calculator for fruit pulp (App.py)\<close>

text \<open>
  The script computes, from the mass of a pulp and its initial and desired solids
  concentration, the mass after adding sugar and the mass of sugar to add.

  Numbers: the script computes on Python floats. The embedding computes on \<^typ>\<open>real\<close>,
  that is with exact arithmetic: rounding, infinities and NaN are not represented.
  Every statement below is a statement about the formulas of the script evaluated exactly.

  Streamlit: the calls \<open>st.error\<close>, \<open>st.warning\<close>, ... write elements to the page. The page
  is modelled as the list of elements written so far, in the order of the calls. Message
  texts are kept in ASCII (accents and pictographs of the source are dropped); a number
  that the source formats into a text is kept as the number.
\<close>

subsection \<open>The page\<close>

record number_input =
  label :: string
  min_value :: "real option"
  max_value :: "real option"
  default_value :: real
  step :: real

datatype element =
    St_set_page_config string string
  | St_title string
  | St_header string
  | St_subheader string
  | St_markdown string
  | St_write string
  | St_columns "real list"
  | St_number_input number_input
  | St_form_submit_button string
  | St_error string
  | St_warning string
  | St_info string
  | St_success real
  | St_metric string real
  | St_expander string
  | St_procedure real real real real real real real
  | St_image string string

text \<open>
  \<open>elements\<close>: what the script has written to the page. \<open>calls\<close>: the arguments of every
  call of \<open>calculate_mass_balance\<close> that the script has made, recorded at the call site
  (the source keeps no such list; it is there to state which runs reach the formula).
\<close>

record page =
  elements :: "element list"
  calls :: "(real \<times> real \<times> real) list"

definition emit :: "element \<Rightarrow> page \<Rightarrow> page" where
  "emit e st = st\<lparr>elements := elements st @ [e]\<rparr>"

definition empty_page :: page where
  "empty_page = \<lparr>elements = [], calls = []\<rparr>"

datatype py_error = TypeError

subsection \<open>calculate_mass_balance (App.py, lines 3-35)\<close>

definition calculate_mass_balance ::
  "real \<Rightarrow> real \<Rightarrow> real \<Rightarrow> page \<Rightarrow> (real option \<times> real option) \<times> page" where
  "calculate_mass_balance initial_mass initial_concentration final_concentration st =
     (let initial_water_fraction = 1 - (initial_concentration / 100);
          final_water_fraction = 1 - (final_concentration / 100)
      in if final_water_fraction = 0
         then ((None, None),
               emit (St_error ''Error: La concentracion final no puede ser 100% porque la pulpa inicial contiene agua.'') st)
         else (let final_mass = (initial_mass * initial_water_fraction) / final_water_fraction;
                   sugar_mass_to_add = final_mass - initial_mass
               in ((Some final_mass, Some sugar_mass_to_add), st)))"

subsection \<open>The form (App.py, lines 47-77)\<close>

text \<open>
  The three number fields of the form, with the bounds the script gives them. The
  variables \<open>m1_input\<close>, \<open>x1_input\<close> and \<open>x3_input\<close> of the script hold what the fields
  return; in the model they are the arguments of \<open>col2\<close> and \<open>app\<close>.
\<close>

definition m1_number_input :: number_input where
  "m1_number_input =
     \<lparr>label = ''Masa Inicial de Pulpa (M1 en kg)'',
      min_value = Some 0, max_value = None, default_value = 50, step = 0.5\<rparr>"

definition x1_number_input :: number_input where
  "x1_number_input =
     \<lparr>label = ''Concentracion Inicial de Solidos (X1 en % o Brix)'',
      min_value = Some 0, max_value = Some 99.9, default_value = 7, step = 0.1\<rparr>"

definition x3_number_input :: number_input where
  "x3_number_input =
     \<lparr>label = ''Concentracion Final Deseada (X3 en % o Brix)'',
      min_value = Some 0, max_value = Some 99.9, default_value = 10, step = 0.1\<rparr>"

text \<open>
  What Streamlit promises of \<open>st.number_input\<close>: the number it returns is not below
  \<open>min_value\<close> and not above \<open>max_value\<close>, where they are given.
\<close>

definition returns :: "number_input \<Rightarrow> real \<Rightarrow> bool" where
  "returns w v =
     ((case min_value w of None \<Rightarrow> True | Some lo \<Rightarrow> lo \<le> v) \<and>
      (case max_value w of None \<Rightarrow> True | Some hi \<Rightarrow> v \<le> hi))"

definition col1 :: "page \<Rightarrow> page" where
  "col1 st =
     (let st = emit (St_header ''Datos de Entrada'') st;
          st = emit (St_write ''Introduce los valores del proceso para calcular el azucar necesario.'') st;
          st = emit (St_number_input m1_number_input) st;
          st = emit (St_number_input x1_number_input) st;
          st = emit (St_number_input x3_number_input) st
      in emit (St_form_submit_button ''Calcular Ahora'') st)"

subsection \<open>The results column (App.py, lines 79-116)\<close>

text \<open>
  Lines 88-110: the success message, the two metrics and the expander with the
  procedure. \<open>St_success\<close> and \<open>St_metric\<close> carry the number the source prints with two
  decimals; \<open>St_procedure\<close> carries the numbers that the formatted procedure text shows.
\<close>

definition show_result :: "real \<Rightarrow> real \<Rightarrow> real \<Rightarrow> real \<Rightarrow> real \<Rightarrow> page \<Rightarrow> page" where
  "show_result m1_input x1_input x3_input m3_calculada m2_calculado st =
     (let st = emit (St_success m2_calculado) st;
          st = emit (St_markdown ''---'') st;
          st = emit (St_subheader ''Detalles del Balance:'') st;
          st = emit (St_columns [1, 1]) st;
          st = emit (St_metric ''Masa Final de la Pulpa (M3)'' m3_calculada) st;
          st = emit (St_metric ''Azucar a Agregar (M2)'' m2_calculado) st;
          st = emit (St_expander ''Ver las formulas y el procedimiento de calculo'') st;
          st = emit (St_write ''El calculo se basa en dos principios de conservacion de masa:'') st;
          st = emit (St_markdown ''1. Balance General de Masa: M1 + M2 = M3. 2. Balance de Componente (Agua): M1 * Y1 = M3 * Y3.'') st;
          st = emit (St_write ''Procedimiento:'') st
      in emit (St_procedure x1_input x3_input m1_input
                 (1 - (x1_input / 100)) (1 - (x3_input / 100)) m3_calculada m2_calculado) st)"

text \<open>
  Lines 81-112. The comparison of the two concentrations comes first; the formula is
  called in its else branch only. Formatting \<open>None\<close> with \<open>:.2f\<close> raises a TypeError.
\<close>

definition submit_handler :: "bool \<Rightarrow> real \<Rightarrow> real \<Rightarrow> real \<Rightarrow> page \<Rightarrow> py_error + page" where
  "submit_handler submit_button m1_input x1_input x3_input st =
     (if submit_button then
        (if x3_input \<le> x1_input then
           Inr (emit (St_warning ''La concentracion final deseada debe ser mayor que la concentracion inicial para agregar azucar.'') st)
         else
           (case calculate_mass_balance m1_input x1_input x3_input
                   (st\<lparr>calls := calls st @ [(m1_input, x1_input, x3_input)]\<rparr>) of
              ((None, _), st') \<Rightarrow> Inr st'
            | ((Some m3_calculada, None), st') \<Rightarrow> Inl TypeError
            | ((Some m3_calculada, Some m2_calculado), st') \<Rightarrow>
                Inr (show_result m1_input x1_input x3_input m3_calculada m2_calculado st')))
      else
        Inr (emit (St_info ''Ingresa los datos en el formulario de la izquierda y presiona Calcular para ver los resultados.'') st))"

definition col2 :: "bool \<Rightarrow> real \<Rightarrow> real \<Rightarrow> real \<Rightarrow> page \<Rightarrow> py_error + page" where
  "col2 submit_button m1_input x1_input x3_input st =
     (case submit_handler submit_button m1_input x1_input x3_input
             (emit (St_header ''Resultados del Calculo'') st) of
        Inl e \<Rightarrow> Inl e
      | Inr st' \<Rightarrow>
          Inr (emit (St_image ''https://i.imgur.com/gK5L0a4.jpeg''
                       ''Diagrama de referencia del problema de balance de masa.'')
                 (emit (St_markdown ''---'') st')))"

subsection \<open>One run of the script\<close>

definition app :: "bool \<Rightarrow> real \<Rightarrow> real \<Rightarrow> real \<Rightarrow> py_error + page" where
  "app submit_button m1_input x1_input x3_input =
     (let st = emit (St_set_page_config ''Balance de Masa'' ''wide'') empty_page;
          st = emit (St_title ''Calculadora de Balance de Masa para Pulpa de Fruta'') st;
          st = emit (St_markdown ''---'') st;
          st = emit (St_columns [1, 1.5]) st;
          st = col1 st
      in col2 submit_button m1_input x1_input x3_input st)"

text \<open>The elements that show an error, and those that show a computed number.\<close>

fun is_error :: "element \<Rightarrow> bool" where
  "is_error (St_error _) = True"
| "is_error _ = False"

fun is_warning :: "element \<Rightarrow> bool" where
  "is_warning (St_warning _) = True"
| "is_warning _ = False"

fun is_result :: "element \<Rightarrow> bool" where
  "is_result (St_success _) = True"
| "is_result (St_metric _ _) = True"
| "is_result (St_procedure _ _ _ _ _ _ _) = True"
| "is_result _ = False"

section \<open>Properties\<close>

lemmas script_defs = app_def col1_def col2_def submit_handler_def show_result_def
  calculate_mass_balance_def emit_def empty_page_def Let_def

lemma final_water_fraction_zero_iff:
  "1 - (final_concentration / 100) = (0::real) \<longleftrightarrow> final_concentration = 100"
  by auto

subsection \<open>The formula\<close>

text \<open>
  C1. For every input with a final concentration other than 100, the function returns
  the final mass \<open>initial_mass * (1 - initial_concentration/100) / (1 - final_concentration/100)\<close>
  and the sugar mass \<open>final_mass - initial_mass\<close>.
\<close>

theorem calculate_mass_balance_formula:
  assumes "final_concentration \<noteq> 100"
  shows "fst (calculate_mass_balance initial_mass initial_concentration final_concentration st) =
           (Some (initial_mass * (1 - initial_concentration / 100) / (1 - final_concentration / 100)),
            Some (initial_mass * (1 - initial_concentration / 100) / (1 - final_concentration / 100)
                  - initial_mass))"
  using assms by (simp add: calculate_mass_balance_def Let_def)

theorem calculate_mass_balance_formula_witness:
  "(50::real) \<noteq> 100 \<and>
   fst (calculate_mass_balance 100 0 50 empty_page) = (Some 200, Some 100)"
  using calculate_mass_balance_formula [of 50 100 0 empty_page] by simp

text \<open>
  C2. For every input with a final concentration of 100 the function fails: it writes
  the error message to the page and returns \<open>(None, None)\<close>, no number.
\<close>

theorem final_concentration_100_fails:
  assumes "final_concentration = 100"
  shows "calculate_mass_balance initial_mass initial_concentration final_concentration st =
           ((None, None), emit (St_error ''Error: La concentracion final no puede ser 100% porque la pulpa inicial contiene agua.'') st)"
  using assms by (simp add: calculate_mass_balance_def)

theorem final_concentration_100_fails_witness:
  "(100::real) = 100 \<and>
   calculate_mass_balance 50 7 100 empty_page =
     ((None, None), \<lparr>elements = [St_error ''Error: La concentracion final no puede ser 100% porque la pulpa inicial contiene agua.''], calls = []\<rparr>)"
  using final_concentration_100_fails [of 100 50 7 empty_page]
  by (simp add: emit_def empty_page_def)



text \<open>
  Water mass, in exact arithmetic: whenever the function returns numbers, the water of
  the initial pulp is the water of the final pulp. How far the two sides are apart
  after rounding is a question about floats, which this lemma does not answer.
\<close>

lemma water_mass_conserved_exact:
  assumes "fst (calculate_mass_balance initial_mass initial_concentration final_concentration st) =
             (Some final_mass, Some sugar_mass)"
  shows "initial_mass * (1 - initial_concentration / 100) =
         final_mass * (1 - final_concentration / 100)"
  using assms by (auto simp add: calculate_mass_balance_def Let_def split: if_splits)




text \<open>
  C7. For an initial mass of 0 and both concentrations in \<open>[0, 100)\<close>, the function
  returns a final mass of 0 and a sugar mass of 0.
\<close>

theorem zero_mass_gives_zero:
  assumes "0 \<le> initial_concentration" and "initial_concentration < 100"
    and "0 \<le> final_concentration" and "final_concentration < 100"
  shows "fst (calculate_mass_balance 0 initial_concentration final_concentration st) =
           (Some 0, Some 0)"
  using assms by (simp add: calculate_mass_balance_def)

theorem zero_mass_gives_zero_witness:
  "(0::real) \<le> 20 \<and> (20::real) < 100 \<and> (0::real) \<le> 5 \<and> (5::real) < 100 \<and>
   fst (calculate_mass_balance 0 20 5 empty_page) = (Some 0, Some 0)"
  using zero_mass_gives_zero [of 20 5 empty_page] by simp

subsection \<open>What the function guards\<close>

text \<open>
  C8, as stated: the function fails on every input that violates \<open>initial_mass \<ge> 0\<close>,
  \<open>0 \<le> initial_concentration < 100\<close> or \<open>0 \<le> final_concentration < 100\<close>. It does not:
  a negative mass, an initial concentration of 150 and a final concentration of -20 or
  of 150 each get numbers, and nothing is written to the page.
\<close>

theorem preconditions_not_guarded:
  "\<not> ((0::real) \<le> - 5) \<and>
   calculate_mass_balance (- 5) 7 10 empty_page = ((Some (- 31 / 6), Some (- 1 / 6)), empty_page) \<and>
   \<not> ((150::real) < 100) \<and>
   calculate_mass_balance 50 150 10 empty_page = ((Some (- 250 / 9), Some (- 700 / 9)), empty_page) \<and>
   \<not> ((0::real) \<le> - 20) \<and>
   calculate_mass_balance 50 7 (- 20) empty_page = ((Some (155 / 4), Some (- 45 / 4)), empty_page) \<and>
   \<not> ((150::real) < 100) \<and>
   calculate_mass_balance 50 7 150 empty_page = ((Some (- 93), Some (- 143)), empty_page)"
  by (simp add: calculate_mass_balance_def)

text \<open>
  C8, amended: the function guards the division only. It fails exactly when the final
  concentration is 100; on every other input, whatever the mass and the concentrations,
  it returns two numbers.
\<close>

theorem fails_iff_final_concentration_100:
  "(fst (calculate_mass_balance initial_mass initial_concentration final_concentration st) =
      (None, None)) = (final_concentration = 100) \<and>
   (\<exists>final_mass sugar_mass.
      fst (calculate_mass_balance initial_mass initial_concentration final_concentration st) =
        (Some final_mass, Some sugar_mass)) = (final_concentration \<noteq> 100)"
  by (simp add: calculate_mass_balance_def Let_def)

theorem fails_iff_final_concentration_100_witness:
  "fst (calculate_mass_balance (- 5) 150 120 empty_page) \<noteq> (None, None) \<and>
   (\<exists>final_mass sugar_mass.
      fst (calculate_mass_balance (- 5) 150 120 empty_page) = (Some final_mass, Some sugar_mass))"
  using fails_iff_final_concentration_100 [of "- 5" 150 120 empty_page] by simp

subsection \<open>Effects on the page\<close>

text \<open>
  C9, as stated: the function has no side effect, on its success path and on its error
  path. On the error path it calls \<open>st.error\<close>: the page is not what it was.
\<close>

theorem error_path_writes_page:
  "snd (calculate_mass_balance 50 7 100 empty_page) \<noteq> empty_page \<and>
   elements (snd (calculate_mass_balance 50 7 100 empty_page)) = [St_error ''Error: La concentracion final no puede ser 100% porque la pulpa inicial contiene agua.'']"
  by (simp add: calculate_mass_balance_def emit_def empty_page_def)

text \<open>
  C9, amended: on its success path the function leaves the page as it was; on its error
  path (a final concentration of 100) its one effect is the error message it writes to
  the page.
\<close>

theorem page_after_calculate_mass_balance:
  "snd (calculate_mass_balance initial_mass initial_concentration final_concentration st) =
     (if final_concentration = 100 then emit (St_error ''Error: La concentracion final no puede ser 100% porque la pulpa inicial contiene agua.'') st else st)"
  by (simp add: calculate_mass_balance_def Let_def)

theorem page_after_calculate_mass_balance_witness:
  "snd (calculate_mass_balance 50 7 10 empty_page) = empty_page \<and>
   snd (calculate_mass_balance 50 7 100 empty_page) = emit (St_error ''Error: La concentracion final no puede ser 100% porque la pulpa inicial contiene agua.'') empty_page"
  using page_after_calculate_mass_balance [of 50 7 10 empty_page]
    page_after_calculate_mass_balance [of 50 7 100 empty_page]
  by simp

subsection \<open>The script around the function\<close>

text \<open>
  C6. When the final concentration is not above the initial one, a submitted form gets
  the warning and nothing else from the handler; the run of the script makes no call of
  \<open>calculate_mass_balance\<close> and shows no computed number, and it shows the warning exactly
  when the form was submitted.
\<close>

theorem domain_rule_rejected:
  assumes "x3_input \<le> x1_input"
  shows "submit_handler True m1_input x1_input x3_input st = Inr (emit (St_warning ''La concentracion final deseada debe ser mayor que la concentracion inicial para agregar azucar.'') st) \<and>
         (\<exists>st'. app submit_button m1_input x1_input x3_input = Inr st' \<and>
                calls st' = [] \<and>
                \<not> list_ex is_result (elements st') \<and>
                list_ex is_warning (elements st') = submit_button)"
  using assms by (simp add: script_defs)

theorem domain_rule_rejected_witness:
  "(7::real) \<le> 7 \<and>
   submit_handler True 10 7 7 empty_page = Inr (emit (St_warning ''La concentracion final deseada debe ser mayor que la concentracion inicial para agregar azucar.'') empty_page) \<and>
   (\<exists>st'. app True 10 7 7 = Inr st' \<and>
          calls st' = [] \<and>
          \<not> list_ex is_result (elements st') \<and>
          list_ex is_warning (elements st') = True)"
  using domain_rule_rejected [of 7 7 10 empty_page True] by simp

text \<open>
  C10. The two concentration fields return numbers in \<open>[0, 99.9]\<close>. For every such
  number the final water fraction is not 0, the function returns numbers, and no run of
  the script, submitted or not, writes an error to the page.
\<close>

theorem form_never_reaches_error:
  assumes "returns m1_number_input m1_input" and "returns x1_number_input x1_input"
    and "returns x3_number_input x3_input"
  shows "0 \<le> x1_input \<and> x1_input \<le> 99.9 \<and> 0 \<le> x3_input \<and> x3_input \<le> 99.9 \<and>
         1 - (x3_input / 100) \<noteq> 0 \<and>
         fst (calculate_mass_balance m1_input x1_input x3_input st) \<noteq> (None, None) \<and>
         (\<exists>st'. app submit_button m1_input x1_input x3_input = Inr st' \<and>
                \<not> list_ex is_error (elements st'))"
proof -
  from assms(2,3) have bounds:
    "0 \<le> x1_input" "x1_input \<le> 99.9" "0 \<le> x3_input" "x3_input \<le> 99.9"
    by (simp_all add: returns_def x1_number_input_def x3_number_input_def)
  then have "x3_input \<noteq> 100"
    by auto
  with bounds show ?thesis
    by (simp add: script_defs)
qed

theorem form_never_reaches_error_witness:
  "returns m1_number_input 50 \<and> returns x1_number_input 7 \<and> returns x3_number_input 99.9 \<and>
   1 - ((99.9::real) / 100) \<noteq> 0 \<and>
   fst (calculate_mass_balance 50 7 99.9 empty_page) = (Some 46500, Some 46450) \<and>
   (\<exists>st'. app True 50 7 99.9 = Inr st' \<and> \<not> list_ex is_error (elements st'))"
proof -
  have h: "returns m1_number_input 50" "returns x1_number_input 7"
    "returns x3_number_input 99.9"
    by (simp_all add: returns_def m1_number_input_def x1_number_input_def x3_number_input_def)
  show ?thesis
    using h form_never_reaches_error [OF h, of empty_page True]
    by (simp add: calculate_mass_balance_def)
qed

end
